theory Spec2Isabelle
  imports Main
begin

section \<open>Strings\<close>

text \<open>
  JavaScript strings are modelled as \<^typ>\<open>string\<close>, one \<^typ>\<open>char\<close> per code unit
  below 256 (ASCII and Latin-1). A field that may be \<open>undefined\<close> is a
  \<^typ>\<open>string option\<close>; \<open>undefined\<close> and the empty string are both falsy.
\<close>

definition truthy :: "string option \<Rightarrow> bool" where
  "truthy v = (case v of None \<Rightarrow> False | Some x \<Rightarrow> x \<noteq> [])"

text \<open>
  \<open>String.prototype.toLowerCase\<close>: the upper-case letters below 256 are \<open>A\<close>..\<open>Z\<close>
  (65..90) and 192..222 without the multiplication sign 215; each is moved up by 32,
  which sets the bit of weight 32 (it is clear in every upper-case code unit).
\<close>

definition isUpper :: "char \<Rightarrow> bool" where
  "isUpper c = (let n = (of_char c :: nat) in
     (65 \<le> n \<and> n \<le> 90) \<or> (192 \<le> n \<and> n \<le> 222 \<and> n \<noteq> 215))"

definition lowerChar :: "char \<Rightarrow> char" where
  "lowerChar c = (if isUpper c
     then (case c of Char b0 b1 b2 b3 b4 b5 b6 b7 \<Rightarrow> Char b0 b1 b2 b3 b4 True b6 b7)
     else c)"

definition toLowerCase :: "string \<Rightarrow> string" where
  "toLowerCase x = map lowerChar x"

text \<open>
  \<open>String.prototype.trim\<close>: the white space and line terminators below 256 are
  tab, line feed, vertical tab, form feed, carriage return, space and no-break space.
\<close>

definition isWhiteSpace :: "char \<Rightarrow> bool" where
  "isWhiteSpace c = (c \<in> set [CHR 0x09, CHR 0x0A, CHR 0x0B, CHR 0x0C, CHR 0x0D, CHR 0x20, CHR 0xA0])"

definition trim :: "string \<Rightarrow> string" where
  "trim x = rev (dropWhile isWhiteSpace (rev (dropWhile isWhiteSpace x)))"

text \<open>\<open>Array.prototype.join\<close> on an array of strings.\<close>

fun join :: "string \<Rightarrow> string list \<Rightarrow> string" where
  "join sep [] = []"
| "join sep [x] = x"
| "join sep (x # y # ys) = x @ sep @ join sep (y # ys)"

text \<open>\<open>Number.prototype.toString\<close> on a natural number: its decimal digits.\<close>

definition digitChar :: "nat \<Rightarrow> char" where
  "digitChar d = ''0123456789'' ! d"

fun digits :: "nat \<Rightarrow> string" where
  "digits n = (if n < 10 then [digitChar n] else digits (n div 10) @ [digitChar (n mod 10)])"

declare digits.simps [simp del]

text \<open>The double quote character of the template literals.\<close>

definition dquote :: string where
  "dquote = [CHR 0x22]"

section \<open>Dropdown data\<close>

text \<open>
  \<open>dropdownData.animalAge\<close>: the \<open>value\<close> column, in the order of the source. The
  \<open>label\<close> column is only displayed in the form and is not part of the model.
\<close>

definition animalAge :: "string list" where
  "animalAge =
    [''baby-like, tiny proportions, big eyes, oversized head'',
     ''toddler-style, playful and chubby, short legs'',
     ''childlike, energetic, round face, cheerful'',
     ''youthful, slightly mischievous, small and lanky'',
     ''awkward teen, slim build, growing up phase'',
     ''confident teenager, casual style, expressive'',
     ''young adult, well-proportioned, stylish'',
     ''mature character, balanced, calm expression'',
     ''elderly, gray fur, wrinkles, gentle demeanor'',
     ''ancient creature, long beard, wise eyes, walking cane'']"

text \<open>\<open>dropdownData.cameraMotion\<close>: the pairs \<open>(en, id)\<close>.\<close>

definition cameraMotionData :: "(string \<times> string) list" where
  "cameraMotionData =
    [(''Static Shot'', ''Bidikan Statis''),
     (''Pan Left'', ''Geser Kiri''),
     (''Pan Right'', ''Geser Kanan''),
     (''Tilt Up'', ''Miring ke Atas''),
     (''Tilt Down'', ''Miring ke Bawah''),
     (''Zoom In'', ''Perbesar''),
     (''Zoom Out'', ''Perkecil''),
     (''Dolly In'', ''Gerakan Dolly Masuk''),
     (''Dolly Out'', ''Gerakan Dolly Keluar''),
     (''Dolly Left'', ''Gerakan Dolly Kiri''),
     (''Dolly Right'', ''Gerakan Dolly Kanan''),
     (''Pedestal Up'', ''Angkat Kamera ke Atas''),
     (''Pedestal Down'', ''Turunkan Kamera ke Bawah''),
     (''Truck Left'', ''Gerakan Truk Kiri''),
     (''Truck Right'', ''Gerakan Truk Kanan''),
     (''Arc Left'', ''Busur Kiri''),
     (''Arc Right'', ''Busur Kanan''),
     (''Whip Pan'', ''Geser Cepat''),
     (''Crash Zoom'', ''Perbesar Mendadak''),
     (''Bullet Time'', ''Waktu Peluru''),
     (''FPV Drone'', ''Drone Sudut Pandang Orang Pertama''),
     (''Aerial Perspective'', ''Perspektif Udara''),
     (''Tracking Shot'', ''Bidikan Mengikuti''),
     (''360 Orbit'', ''Orbit 360 Derajat''),
     (''Crane Up'', ''Angkat Derek ke Atas''),
     (''Crane Down'', ''Turunkan Derek ke Bawah''),
     (''Dolly Zoom'', ''Efek Vertigo''),
     (''Robo Arm'', ''Lengan Robot''),
     (''Super Dolly In'', ''Gerakan Dolly Sangat Dekat''),
     (''Focus Change'', ''Perubahan Fokus''),
     (''Through Object'', ''Melalui Objek''),
     (''Lazy Susan'', ''Putaran Lambat''),
     (''Action Run'', ''Lari Aksi''),
     (''Handheld'', ''Genggam Tangan''),
     (''Dutch Angle'', ''Sudut Belanda''),
     (''Car Grip'', ''Genggam Mobil''),
     (''Hyperlapse'', ''Hiperlapse''),
     (''Low Shutter'', ''Rana Lambat''),
     (''Fisheye'', ''Mata Ikan'')]"

section \<open>Data model\<close>

text \<open>
  The detail objects of the form, one record per character type. Every field starts
  \<open>undefined\<close> (the form state starts as \<open>{}\<close>) and is set to a string by its input.
\<close>

record human_details =
  h_gender :: "string option"
  h_faceShape :: "string option"
  h_skinColor :: "string option"
  h_bodyTypePosture :: "string option"
  h_age :: "string option"
  h_height :: "string option"
  h_clothingAccessories :: "string option"
  h_additionalDetail :: "string option"

record animal4_details =
  a4_animalType :: "string option"
  a4_clothingAccessories :: "string option"

record animal2_details =
  a2_animalType :: "string option"
  a2_gender :: "string option"
  a2_age :: "string option"
  a2_bodyShapePosture :: "string option"
  a2_noseShape :: "string option"
  a2_faceFeature :: "string option"
  a2_earFeature :: "string option"
  a2_furCharacteristic :: "string option"
  a2_furColors :: "string option"
  a2_clothingAccessories :: "string option"

definition emptyHuman :: human_details where
  "emptyHuman = \<lparr>h_gender = None, h_faceShape = None, h_skinColor = None,
     h_bodyTypePosture = None, h_age = None, h_height = None,
     h_clothingAccessories = None, h_additionalDetail = None\<rparr>"

definition emptyAnimal4 :: animal4_details where
  "emptyAnimal4 = \<lparr>a4_animalType = None, a4_clothingAccessories = None\<rparr>"

definition emptyAnimal2 :: animal2_details where
  "emptyAnimal2 = \<lparr>a2_animalType = None, a2_gender = None, a2_age = None,
     a2_bodyShapePosture = None, a2_noseShape = None, a2_faceFeature = None,
     a2_earFeature = None, a2_furCharacteristic = None, a2_furColors = None,
     a2_clothingAccessories = None\<rparr>"

text \<open>
  A saved character: \<open>handleSaveCharacter\<close> stores the type together with the detail
  object of that type, so \<open>type\<close> and \<open>details\<close> are one tagged value.
\<close>

datatype details =
    Human human_details
  | Animal4 animal4_details
  | Animal2 animal2_details
  | Fantasy string

record character =
  cid :: string
  cname :: string
  cdetails :: details

definition typeOf :: "character \<Rightarrow> string" where
  "typeOf c = (case cdetails c of
       Human _ \<Rightarrow> ''human''
     | Animal4 _ \<Rightarrow> ''animal4''
     | Animal2 _ \<Rightarrow> ''animal2''
     | Fantasy _ \<Rightarrow> ''fantasy'')"

record dialogueLine =
  dl_type :: string
  dl_sentence :: string
  dl_targetCharId :: "string option"

record characterAction =
  charId :: string
  action :: string
  isMain :: bool
  dialogueLines :: "dialogueLine list"

record spokenEntry =
  sd_charId :: string
  sd_type :: string
  sd_sentence :: string
  sd_targetCharId :: string

text \<open>
  The state of the \<open>App\<close> component, one field per \<open>useState\<close> cell: the form, the
  store, the two output texts, the message box and the loading flags. The cells of the
  draft management (the draft list, the current draft and its two flags) and the
  Firebase handles are left out: no handler modelled here reads or writes them.
\<close>

record app =
  characterName :: string
  characterType :: string
  humanDetails :: human_details
  animal4Details :: animal4_details
  animal2Details :: animal2_details
  fantasyDetails :: string
  savedCharacters :: "character list"
  selectedCharactersForActions :: "string list"
  characterActions :: "characterAction list"
  expressions :: "string \<rightharpoonup> string"
  location :: string
  timeOfDay :: string
  cameraMotion :: string
  lighting :: string
  selectedVisualStyles :: "string list"
  videoMood :: string
  soundMusic :: string
  spokenDialogue :: "spokenEntry list"
  additionalDetails :: string
  indonesianPrompt :: string
  englishPrompt :: string
  isLoadingPrompt :: bool
  showModal :: bool
  modalMessage :: string
  isLoadingActionSuggestion :: "string \<rightharpoonup> bool"
  isLoadingDialogueSuggestion :: "nat \<rightharpoonup> bool"

text \<open>The initial values given to \<open>useState\<close>.\<close>

definition initialApp :: app where
  "initialApp = \<lparr>characterName = [], characterType = [],
     humanDetails = emptyHuman, animal4Details = emptyAnimal4,
     animal2Details = emptyAnimal2, fantasyDetails = [],
     savedCharacters = [], selectedCharactersForActions = [],
     characterActions = [], expressions = Map.empty,
     location = [], timeOfDay = [], cameraMotion = [], lighting = [],
     selectedVisualStyles = [], videoMood = [], soundMusic = [],
     spokenDialogue = [], additionalDetails = [],
     indonesianPrompt = [], englishPrompt = [], isLoadingPrompt = False,
     showModal = False, modalMessage = [],
     isLoadingActionSuggestion = Map.empty, isLoadingDialogueSuggestion = Map.empty\<rparr>"

definition showCustomModal :: "string \<Rightarrow> app \<Rightarrow> app" where
  "showCustomModal message s = s\<lparr>modalMessage := message, showModal := True\<rparr>"

text \<open>\<open>savedCharacters.find(sc => sc.id === i)\<close>.\<close>

definition findCharacter :: "character list \<Rightarrow> string \<Rightarrow> character option" where
  "findCharacter cs i = find (\<lambda>sc. cid sc = i) cs"

section \<open>Prompt generation\<close>

text \<open>\<open>if (v) acc += f(v)\<close>, for a string field \<open>v\<close> that may be \<open>undefined\<close>.\<close>

definition appendIf :: "string option \<Rightarrow> (string \<Rightarrow> string) \<Rightarrow> string \<Rightarrow> string" where
  "appendIf v f acc = (case v of None \<Rightarrow> acc | Some x \<Rightarrow> if x \<noteq> [] then acc @ f x else acc)"

text \<open>\<open>v ? v.toLowerCase() : ''\<close>.\<close>

definition lowerOrEmpty :: "string option \<Rightarrow> string" where
  "lowerOrEmpty v = (case v of None \<Rightarrow> [] | Some x \<Rightarrow> if x \<noteq> [] then toLowerCase x else [])"

text \<open>\<open>.filter(Boolean)\<close> on an array of names, each a string or \<open>undefined\<close>.\<close>

fun filterBoolean :: "string option list \<Rightarrow> string list" where
  "filterBoolean [] = []"
| "filterBoolean (None # vs) = filterBoolean vs"
| "filterBoolean (Some x # vs) = (if x \<noteq> [] then x # filterBoolean vs else filterBoolean vs)"

definition mainCharacters :: "app \<Rightarrow> string list" where
  "mainCharacters s = filterBoolean
     (map (\<lambda>ca. map_option cname (findCharacter (savedCharacters s) (charId ca)))
        (filter isMain (characterActions s)))"

text \<open>
  The description of one saved character, before the final full stop. The two-legged
  animal reads the age from \<open>animal2Details\<close>, the state of the form, and looks it up
  in \<open>dropdownData.animalAge\<close>.
\<close>

definition charDesc :: "app \<Rightarrow> character \<Rightarrow> string" where
  "charDesc s c =
    (let d0 = cname c @ '' adalah '' @ (if typeOf c = ''human'' then ''seorang'' else ''seekor'') @ '' ''
     in case cdetails c of
       Human h \<Rightarrow>
         (let d1 = d0 @ ''manusia '' @ lowerOrEmpty (h_gender h);
              d2 = appendIf (h_age h) (\<lambda>v. '' berusia '' @ toLowerCase v) d1;
              d3 = appendIf (h_skinColor h) (\<lambda>v. '' dengan kulit '' @ toLowerCase v) d2;
              d4 = appendIf (h_bodyTypePosture h) (\<lambda>v. '' berbadan '' @ toLowerCase v) d3;
              d5 = appendIf (h_clothingAccessories h) (\<lambda>v. '' mengenakan '' @ toLowerCase v) d4
          in appendIf (h_additionalDetail h) (\<lambda>v. '', '' @ toLowerCase v) d5)
     | Animal4 a \<Rightarrow>
         (let d1 = d0 @ ''hewan '' @ lowerOrEmpty (a4_animalType a)
          in appendIf (a4_clothingAccessories a) (\<lambda>v. '' mengenakan '' @ toLowerCase v) d1)
     | Animal2 a \<Rightarrow>
         (let d1 = d0 @ ''hewan '' @ lowerOrEmpty (a2_animalType a) @ '' berjalan dengan dua kaki'';
              d2 = appendIf (a2_gender a) (\<lambda>v. '' berjenis kelamin '' @ toLowerCase v) d1;
              selectedAnimalAge = find (\<lambda>opt. Some opt = a2_age (animal2Details s)) animalAge;
              d3 = (case selectedAnimalAge of None \<Rightarrow> d2 | Some v \<Rightarrow> d2 @ '' ('' @ v @ '')'');
              d4 = appendIf (a2_bodyShapePosture a) (\<lambda>v. '' berbadan '' @ toLowerCase v) d3;
              d5 = appendIf (a2_furColors a) (\<lambda>v. '' dengan bulu '' @ toLowerCase v) d4;
              d6 = appendIf (a2_furCharacteristic a) (\<lambda>v. '' yang '' @ toLowerCase v) d5
          in appendIf (a2_clothingAccessories a) (\<lambda>v. '' mengenakan '' @ toLowerCase v) d6)
     | Fantasy f \<Rightarrow>
         d0 @ ''makhluk fantasi. '' @ (if f \<noteq> [] then toLowerCase f else []))"

text \<open>The first block: main characters and descriptions, only when a character is saved.\<close>

definition characterSentences :: "app \<Rightarrow> string list" where
  "characterSentences s =
    (if savedCharacters s \<noteq> [] then
       (if mainCharacters s \<noteq> []
        then [''Karakter utama adalah '' @ join '' dan '' (mainCharacters s) @ ''.'']
        else [])
       @ map (\<lambda>c. charDesc s c @ ''.'') (savedCharacters s)
     else [])"

text \<open>One dialogue line of a character action.\<close>

definition lineSentences :: "character \<Rightarrow> dialogueLine \<Rightarrow> string list" where
  "lineSentences character line =
    (if dl_sentence line \<noteq> [] then
       [cname character @ '' ''
          @ (if dl_type line = ''Ask a question'' then ''bertanya'' else ''menjawab'')
          @ '': '' @ dquote @ dl_sentence line @ dquote]
     else [])"

text \<open>
  One entry of \<open>characterActions\<close>: the action, the expression, the dialogue lines. Here
  \<open>expressions[ca.charId]\<close> reads the properties the object holds itself, which is the
  whole lookup for every key that is no member of \<open>Object.prototype\<close>; the lookup of an
  inherited member, on which \<open>toLowerCase\<close> throws, is in \<open>actionSentencesJS\<close> below.
\<close>

definition actionSentences :: "app \<Rightarrow> characterAction \<Rightarrow> string list" where
  "actionSentences s ca =
    (case findCharacter (savedCharacters s) (charId ca) of
       None \<Rightarrow> []
     | Some character \<Rightarrow>
         (let actionDesc = cname character @ '' sedang '' @ toLowerCase (action ca);
              charExpression = expressions s (charId ca);
              actionDesc' = appendIf charExpression (\<lambda>v. '' dengan ekspresi '' @ toLowerCase v) actionDesc
          in (actionDesc' @ ''.'') # concat (map (lineSentences character) (dialogueLines ca))))"

text \<open>Location, time, camera motion, lighting, visual styles, mood and sound.\<close>

definition sceneSentences :: "app \<Rightarrow> string list" where
  "sceneSentences s =
    (if location s \<noteq> [] then [''Adegan berlangsung di '' @ toLowerCase (location s) @ ''.''] else [])
    @ (if timeOfDay s \<noteq> [] then [''Waktu kejadian adalah '' @ toLowerCase (timeOfDay s) @ ''.''] else [])
    @ (if cameraMotion s \<noteq> [] then
         (case find (\<lambda>m. fst m = cameraMotion s) cameraMotionData of
            None \<Rightarrow> []
          | Some motion \<Rightarrow> [''Gerakan kamera: '' @ snd motion @ ''.''])
       else [])
    @ (if lighting s \<noteq> [] then [''Pencahayaan: '' @ toLowerCase (lighting s) @ ''.''] else [])
    @ (if selectedVisualStyles s \<noteq> [] then
         [''Gaya visual video adalah '' @ join '', '' (map toLowerCase (selectedVisualStyles s)) @ ''.'']
       else [])
    @ (if videoMood s \<noteq> [] then [''Suasana video: '' @ toLowerCase (videoMood s) @ ''.''] else [])
    @ (if soundMusic s \<noteq> [] then [''Latar belakang musik/suara: '' @ toLowerCase (soundMusic s) @ ''.''] else [])"

text \<open>The text of one entry of the global spoken dialogue, once its speaker is found.\<close>

definition dialogueText :: "character list \<Rightarrow> character \<Rightarrow> spokenEntry \<Rightarrow> string" where
  "dialogueText cs speaker sd =
    (let t0 = cname speaker @ '' '' in
     if sd_type sd = ''Ask a question'' then
       (let t1 = t0 @ ''bertanya'';
            t2 = (case findCharacter cs (sd_targetCharId sd) of
                    None \<Rightarrow> t1 | Some targetChar \<Rightarrow> t1 @ '' kepada '' @ cname targetChar)
        in t2 @ '': '' @ dquote @ sd_sentence sd @ dquote)
     else if sd_type sd = ''Give an answer'' then
       (let t1 = t0 @ ''menjawab'';
            t2 = (case findCharacter cs (sd_targetCharId sd) of
                    None \<Rightarrow> t1 | Some targetChar \<Rightarrow> t1 @ '' kepada '' @ cname targetChar)
        in t2 @ '': '' @ dquote @ sd_sentence sd @ dquote)
     else if sd_type sd = ''Berbicara ke Audiens'' then
       t0 @ ''berbicara kepada audiens: '' @ dquote @ sd_sentence sd @ dquote
     else t0)"

definition spokenSentences :: "app \<Rightarrow> spokenEntry \<Rightarrow> string list" where
  "spokenSentences s sd =
    (case findCharacter (savedCharacters s) (sd_charId sd) of
       None \<Rightarrow> []
     | Some speaker \<Rightarrow>
         if sd_sentence sd \<noteq> [] then [dialogueText (savedCharacters s) speaker sd] else [])"

text \<open>The array \<open>prompt\<close> at the end of \<open>generateIndonesianPromptText\<close>.\<close>

definition prompt :: "app \<Rightarrow> string list" where
  "prompt s =
     characterSentences s
     @ concat (map (actionSentences s) (characterActions s))
     @ sceneSentences s
     @ concat (map (spokenSentences s) (spokenDialogue s))
     @ (if additionalDetails s \<noteq> [] then [''Detail tambahan: '' @ additionalDetails s @ ''.''] else [])"

text \<open>The composed text, \<open>prompt.join(' ')\<close>.\<close>

definition compose :: "app \<Rightarrow> string" where
  "compose s = join '' '' (prompt s)"

subsection \<open>The exception of the property lookup\<close>

text \<open>
  \<open>expressions\<close> is a plain object, so \<open>expressions[k]\<close> finds the property the object
  holds itself or, failing that, a member inherited from \<open>Object.prototype\<close>: a function
  (or, for \<open>__proto__\<close>, the prototype object), which is truthy and has no
  \<open>toLowerCase\<close>. Calling \<open>charExpression.toLowerCase()\<close> on it throws a \<open>TypeError\<close>.
\<close>

definition objectPrototypeMembers :: "string list" where
  "objectPrototypeMembers =
    [''constructor'', ''__defineGetter__'', ''__defineSetter__'', ''hasOwnProperty'',
     ''__lookupGetter__'', ''__lookupSetter__'', ''isPrototypeOf'', ''propertyIsEnumerable'',
     ''toString'', ''valueOf'', ''__proto__'', ''toLocaleString'']"

datatype js_value = Undefined | Str string | Inherited

definition getProperty :: "(string \<rightharpoonup> string) \<Rightarrow> string \<Rightarrow> js_value" where
  "getProperty obj k =
    (case obj k of
       Some v \<Rightarrow> Str v
     | None \<Rightarrow> if k \<in> set objectPrototypeMembers then Inherited else Undefined)"

datatype error = TypeError

text \<open>
  One entry of \<open>characterActions\<close> as the source runs it: the sentences, or the exception
  thrown at \<open>charExpression.toLowerCase()\<close>.
\<close>

definition actionSentencesJS :: "app \<Rightarrow> characterAction \<Rightarrow> error + string list" where
  "actionSentencesJS s ca =
    (case findCharacter (savedCharacters s) (charId ca) of
       None \<Rightarrow> Inr []
     | Some character \<Rightarrow>
         (let actionDesc = cname character @ '' sedang '' @ toLowerCase (action ca);
              charExpression = getProperty (expressions s) (charId ca)
          in case charExpression of
               Undefined \<Rightarrow>
                 Inr ((actionDesc @ ''.'') # concat (map (lineSentences character) (dialogueLines ca)))
             | Str v \<Rightarrow>
                 Inr (((if v \<noteq> [] then actionDesc @ '' dengan ekspresi '' @ toLowerCase v
                        else actionDesc) @ ''.'')
                      # concat (map (lineSentences character) (dialogueLines ca)))
             | Inherited \<Rightarrow> Inl TypeError))"

text \<open>\<open>forEach\<close> with a callback that may throw: the first exception ends the loop.\<close>

fun forEachJS :: "('a \<Rightarrow> error + string list) \<Rightarrow> 'a list \<Rightarrow> error + string list" where
  "forEachJS f [] = Inr []"
| "forEachJS f (x # xs) =
     (case f x of
        Inl e \<Rightarrow> Inl e
      | Inr ys \<Rightarrow> (case forEachJS f xs of Inl e \<Rightarrow> Inl e | Inr zs \<Rightarrow> Inr (ys @ zs)))"

text \<open>
  \<open>generateIndonesianPromptText\<close> as the source runs it: an exception in the loop over
  \<open>characterActions\<close> leaves the function before \<open>setIndonesianPrompt\<close>; otherwise the
  joined text is stored.
\<close>

definition promptJS :: "app \<Rightarrow> error + string list" where
  "promptJS s =
    (case forEachJS (actionSentencesJS s) (characterActions s) of
       Inl e \<Rightarrow> Inl e
     | Inr actions \<Rightarrow>
         Inr (characterSentences s
              @ actions
              @ sceneSentences s
              @ concat (map (spokenSentences s) (spokenDialogue s))
              @ (if additionalDetails s \<noteq> [] then [''Detail tambahan: '' @ additionalDetails s @ ''.''] else [])))"

definition composeJS :: "app \<Rightarrow> error + string" where
  "composeJS s = (case promptJS s of Inl e \<Rightarrow> Inl e | Inr sentences \<Rightarrow> Inr (join '' '' sentences))"


section \<open>Handlers of the store\<close>

text \<open>
  \<open>handleSaveCharacter\<close>. The identifier is \<open>Date.now().toString()\<close>; the clock value
  \<open>now\<close> is an argument. Both early returns only show a message.
\<close>

definition handleSaveCharacter :: "nat \<Rightarrow> app \<Rightarrow> app" where
  "handleSaveCharacter now s =
    (if characterName s = [] then
       showCustomModal ''Character Name is required to save a character.'' s
     else
       (let chosen =
          (if characterType s = ''human'' then Some (Human (humanDetails s))
           else if characterType s = ''animal4'' then Some (Animal4 (animal4Details s))
           else if characterType s = ''animal2'' then Some (Animal2 (animal2Details s))
           else if characterType s = ''fantasy'' then Some (Fantasy (fantasyDetails s))
           else None)
        in case chosen of
          None \<Rightarrow> showCustomModal ''Please select a character type.'' s
        | Some d \<Rightarrow>
            (let newCharacter = \<lparr>cid = digits now, cname = characterName s, cdetails = d\<rparr>
             in showCustomModal (''Character '' @ dquote @ cname newCharacter @ dquote @ '' saved!'')
                  (s\<lparr>savedCharacters := savedCharacters s @ [newCharacter],
                     characterName := [], characterType := [],
                     humanDetails := emptyHuman, animal4Details := emptyAnimal4,
                     animal2Details := emptyAnimal2, fantasyDetails := []\<rparr>))))"

text \<open>\<open>Array.prototype.findIndex\<close>, with \<open>None\<close> for \<open>-1\<close>.\<close>

fun findIndex :: "('a \<Rightarrow> bool) \<Rightarrow> 'a list \<Rightarrow> nat option" where
  "findIndex P [] = None"
| "findIndex P (x # xs) = (if P x then Some 0 else map_option Suc (findIndex P xs))"

text \<open>
  \<open>handleCharacterActionChange(charId, 'action', value)\<close>: every call in the source
  passes the field \<open>'action'\<close>. An existing entry is replaced at its index, otherwise
  a default entry with the value is appended.
\<close>

definition handleCharacterActionChange :: "string \<Rightarrow> string \<Rightarrow> app \<Rightarrow> app" where
  "handleCharacterActionChange i v s =
    (let prevActions = characterActions s
     in s\<lparr>characterActions :=
          (case findIndex (\<lambda>a. charId a = i) prevActions of
             Some k \<Rightarrow> prevActions[k := (prevActions ! k)\<lparr>action := v\<rparr>]
           | None \<Rightarrow> prevActions @ [\<lparr>charId = i, action = v, isMain = False, dialogueLines = []\<rparr>])\<rparr>)"

text \<open>
  The \<open>onChange\<close> handler of the check box that selects a character for actions:
  ticking appends the identifier to the selection; unticking removes it from the
  selection and removes the character's entry from \<open>characterActions\<close>.
\<close>

definition onSelectCharacterChange :: "bool \<Rightarrow> string \<Rightarrow> app \<Rightarrow> app" where
  "onSelectCharacterChange checked i s =
    (if checked then
       s\<lparr>selectedCharactersForActions := selectedCharactersForActions s @ [i]\<rparr>
     else
       s\<lparr>selectedCharactersForActions := filter (\<lambda>x. x \<noteq> i) (selectedCharactersForActions s),
         characterActions := filter (\<lambda>a. charId a \<noteq> i) (characterActions s)\<rparr>)"

text \<open>\<open>handleVisualStyleChange\<close>.\<close>

definition handleVisualStyleChange :: "string \<Rightarrow> app \<Rightarrow> app" where
  "handleVisualStyleChange style s =
    (let prevStyles = selectedVisualStyles s
     in s\<lparr>selectedVisualStyles :=
          (if style \<in> set prevStyles then filter (\<lambda>x. x \<noteq> style) prevStyles
           else prevStyles @ [style])\<rparr>)"

section \<open>Action suggestion\<close>

text \<open>
  The body of a successful response, as far as the handler inspects it: each level may
  be missing. What \<open>fetch\<close> and the reading of the body can do is one value of
  \<open>fetch_outcome\<close>: the promise rejects, the status is not a success (with the status
  and the body text), the body is not JSON, or the body is a JSON value.
\<close>

datatype part = Part (ptext: "string option")

datatype content = Content (parts: "part list option")

datatype candidate = Candidate (content: "content option")

datatype api_result = ApiResult (candidates: "candidate list option")

datatype fetch_outcome =
    Rejected
  | NotOk nat string
  | OkInvalidJson
  | OkJson api_result

text \<open>
  The test \<open>result.candidates && result.candidates.length > 0 && ...\<close>: the first part
  of the first candidate when every level is there.
\<close>

definition firstPart :: "api_result \<Rightarrow> part option" where
  "firstPart result =
    (case candidates result of
       None \<Rightarrow> None
     | Some [] \<Rightarrow> None
     | Some (c # _) \<Rightarrow>
         (case content c of
            None \<Rightarrow> None
          | Some co \<Rightarrow>
              (case parts co of
                 None \<Rightarrow> None
               | Some [] \<Rightarrow> None
               | Some (p # _) \<Rightarrow> Some p)))"

definition setLoadingAction :: "string \<Rightarrow> bool \<Rightarrow> app \<Rightarrow> app" where
  "setLoadingAction i b s =
     s\<lparr>isLoadingActionSuggestion := (isLoadingActionSuggestion s)(i \<mapsto> b)\<rparr>"

text \<open>
  The part of \<open>suggestCharacterAction\<close> that runs once the request has settled, on the
  state of that moment: the \<open>try\<close> block after the \<open>await\<close>, the \<open>catch\<close> block (also
  reached when \<open>text\<close> is missing and \<open>trim\<close> is called on \<open>undefined\<close>) and the
  \<open>finally\<close> block, which runs after the early return too.
\<close>

definition suggestCharacterAction_settled ::
    "character \<Rightarrow> string \<Rightarrow> fetch_outcome \<Rightarrow> app \<Rightarrow> app" where
  "suggestCharacterAction_settled character i outcome s =
    setLoadingAction i False
      (case outcome of
         Rejected \<Rightarrow> showCustomModal ''Terjadi kesalahan saat menyarankan aksi. Coba lagi.'' s
       | NotOk status errorText \<Rightarrow>
           showCustomModal (''Gagal menyarankan aksi. Status: '' @ digits status
              @ ''. Detail: '' @ take 100 errorText @ ''...'') s
       | OkInvalidJson \<Rightarrow> showCustomModal ''Terjadi kesalahan saat menyarankan aksi. Coba lagi.'' s
       | OkJson result \<Rightarrow>
           (case firstPart result of
              None \<Rightarrow> showCustomModal ''Gagal menyarankan aksi. Respon API tidak terduga.'' s
            | Some p \<Rightarrow>
                (case ptext p of
                   None \<Rightarrow> showCustomModal ''Terjadi kesalahan saat menyarankan aksi. Coba lagi.'' s
                 | Some t \<Rightarrow>
                     (let generatedAction = trim t
                      in showCustomModal (''Aksi untuk '' @ cname character @ '' disarankan: ''
                            @ dquote @ generatedAction @ dquote)
                           (handleCharacterActionChange i generatedAction s)))))"

text \<open>
  \<open>suggestCharacterAction\<close> with no other event between the request and its answer.
\<close>

definition suggestCharacterAction :: "string \<Rightarrow> fetch_outcome \<Rightarrow> app \<Rightarrow> app" where
  "suggestCharacterAction i outcome s =
    (let s1 = setLoadingAction i True s
     in case findCharacter (savedCharacters s) i of
          None \<Rightarrow> setLoadingAction i False (showCustomModal ''Karakter tidak ditemukan.'' s1)
        | Some character \<Rightarrow> suggestCharacterAction_settled character i outcome s1)"

text \<open>The text a settled request suggests: present exactly on the success path.\<close>

definition suggestedText :: "fetch_outcome \<Rightarrow> string option" where
  "suggestedText outcome =
    (case outcome of
       OkJson result \<Rightarrow> (case firstPart result of None \<Rightarrow> None | Some p \<Rightarrow> ptext p)
     | _ \<Rightarrow> None)"

section \<open>Statements in the words of the specification\<close>

text \<open>
  The names the specification speaks of in the main-character callout: for each entry
  of \<open>characterActions\<close> with \<open>isMain\<close>, in order, the name of the saved character its
  \<open>charId\<close> resolves to; an entry that resolves to no character gives no name.
\<close>

definition mainNames_spec :: "app \<Rightarrow> string list" where
  "mainNames_spec s =
     concat (map (\<lambda>ca. case findCharacter (savedCharacters s) (charId ca) of
                          None \<Rightarrow> [] | Some c \<Rightarrow> [cname c])
               (filter isMain (characterActions s)))"

text \<open>
  The clauses of a human introduction in the order of the specification: gender, age,
  skin colour, body type or posture, clothing, additional detail, each with the words
  that lead it in.
\<close>

definition humanClauses_spec :: "human_details \<Rightarrow> (string \<times> string option) list" where
  "humanClauses_spec h =
    [([], h_gender h),
     ('' berusia '', h_age h),
     ('' dengan kulit '', h_skinColor h),
     ('' berbadan '', h_bodyTypePosture h),
     ('' mengenakan '', h_clothingAccessories h),
     ('', '', h_additionalDetail h)]"

text \<open>
  A clause is rendered only when its field is present, lower-cased.
\<close>

definition clause_spec :: "string \<times> string option \<Rightarrow> string" where
  "clause_spec pv = (if truthy (snd pv) then fst pv @ toLowerCase (the (snd pv)) else [])"

text \<open>
  The introduction sentence of a human character, with the article \<open>seorang\<close>.
\<close>

definition humanSentence_spec :: "string \<Rightarrow> human_details \<Rightarrow> string" where
  "humanSentence_spec n h =
     n @ '' adalah seorang manusia '' @ concat (map clause_spec (humanClauses_spec h)) @ ''.''"

text \<open>
  Two states of the component hold the same Entity Store when they agree on every cell of
  the store: the saved characters, their actions and expressions, the scene attributes,
  the spoken dialogue and the additional details. The cells of the form are not part of it.
\<close>

definition sameStore :: "app \<Rightarrow> app \<Rightarrow> bool" where
  "sameStore s t \<longleftrightarrow>
     savedCharacters s = savedCharacters t \<and>
     selectedCharactersForActions s = selectedCharactersForActions t \<and>
     characterActions s = characterActions t \<and> expressions s = expressions t \<and>
     location s = location t \<and> timeOfDay s = timeOfDay t \<and> cameraMotion s = cameraMotion t \<and>
     lighting s = lighting t \<and> selectedVisualStyles s = selectedVisualStyles t \<and>
     videoMood s = videoMood t \<and> soundMusic s = soundMusic t \<and>
     spokenDialogue s = spokenDialogue t \<and> additionalDetails s = additionalDetails t"

text \<open>
  No saved character has an identifier that names a member of \<open>Object.prototype\<close>. The
  identifiers that \<open>handleSaveCharacter\<close> issues are strings of decimal digits.
\<close>

definition safeIds :: "app \<Rightarrow> bool" where
  "safeIds s \<longleftrightarrow> (\<forall>c \<in> set (savedCharacters s). cid c \<notin> set objectPrototypeMembers)"

section \<open>Example stores\<close>

text \<open>
  Values used to run the definitions: characters, dialogue entries, a store, two responses.
\<close>

definition toddler :: string where
  "toddler = ''toddler-style, playful and chubby, short legs''"

definition aria :: character where
  "aria = \<lparr>cid = ''1'', cname = ''Aria'',
            cdetails = Human (emptyHuman\<lparr>h_gender := Some ''Female'', h_age := Some ''25 tahun''\<rparr>)\<rparr>"

definition bruno :: character where
  "bruno = \<lparr>cid = ''2'', cname = ''Bruno'',
             cdetails = Animal2 (emptyAnimal2\<lparr>a2_animalType := Some ''Bear'', a2_age := Some toddler\<rparr>)\<rparr>"

definition brunoForm :: app where
  "brunoForm = initialApp\<lparr>characterName := ''Bruno'', characterType := ''animal2'',
     animal2Details := emptyAnimal2\<lparr>a2_animalType := Some ''Bear'', a2_age := Some toddler\<rparr>\<rparr>"

definition audienceLine :: dialogueLine where
  "audienceLine = \<lparr>dl_type = ''Berbicara ke Audiens'', dl_sentence = ''Halo semua'', dl_targetCharId = None\<rparr>"

definition untypedEntry :: spokenEntry where
  "untypedEntry = \<lparr>sd_charId = ''1'', sd_type = [], sd_sentence = ''Hai'', sd_targetCharId = []\<rparr>"

definition strayAction :: characterAction where
  "strayAction = \<lparr>charId = ''9'', action = ''Terbang'', isMain = True, dialogueLines = [audienceLine]\<rparr>"

definition strayEntry :: spokenEntry where
  "strayEntry = \<lparr>sd_charId = ''9'', sd_type = ''Ask a question'', sd_sentence = ''Siapa?'', sd_targetCharId = ''1''\<rparr>"

definition sceneStore :: app where
  "sceneStore = initialApp\<lparr>
     savedCharacters := [aria, bruno],
     selectedCharactersForActions := [''2'', ''1''],
     characterActions :=
       [\<lparr>charId = ''2'', action = ''Lari'', isMain = True, dialogueLines = []\<rparr>,
        \<lparr>charId = ''1'', action = ''Duduk'', isMain = False, dialogueLines = []\<rparr>],
     expressions := [''2'' \<mapsto> ''Happy''],
     selectedVisualStyles := [''3D'', ''Anime'']\<rparr>"

definition constructorStore :: app where
  "constructorStore = initialApp\<lparr>
     savedCharacters := [aria\<lparr>cid := ''constructor''\<rparr>],
     characterActions :=
       [\<lparr>charId = ''constructor'', action = ''Lari'', isMain = False, dialogueLines = []\<rparr>]\<rparr>"

definition brunoSaved :: app where
  "brunoSaved = handleSaveCharacter 1720000000000 brunoForm"

definition brunoSavedFormAge :: app where
  "brunoSavedFormAge = brunoSaved\<lparr>characterType := ''animal2'',
     animal2Details := emptyAnimal2\<lparr>a2_age := Some ''elderly, gray fur, wrinkles, gentle demeanor''\<rparr>\<rparr>"

definition goodOutcome :: fetch_outcome where
  "goodOutcome = OkJson (ApiResult (Some [Candidate (Some (Content (Some [Part (Some ''  melompat tinggi '')])))]))"

definition badOutcome :: fetch_outcome where
  "badOutcome = NotOk 500 ''quota''"

section \<open>Auxiliary facts\<close>

text \<open>
  The equations that evaluate the composed text and the example values.
\<close>

lemmas compose_defs = compose_def prompt_def characterSentences_def mainCharacters_def
  charDesc_def typeOf_def lowerOrEmpty_def appendIf_def toLowerCase_def lowerChar_def isUpper_def
  actionSentences_def lineSentences_def sceneSentences_def spokenSentences_def dialogueText_def
  findCharacter_def dquote_def animalAge_def cameraMotionData_def

lemmas example_defs = initialApp_def emptyHuman_def emptyAnimal2_def emptyAnimal4_def aria_def bruno_def
  brunoForm_def toddler_def audienceLine_def untypedEntry_def strayAction_def strayEntry_def sceneStore_def
  goodOutcome_def badOutcome_def constructorStore_def brunoSaved_def brunoSavedFormAge_def

text \<open>
  Lower-casing moves an upper-case code unit up by 32 and keeps every other one.
\<close>

lemma lowerChar_code_unit:
  "isUpper c \<Longrightarrow> (of_char (lowerChar c) :: nat) = of_char c + 32"
  by (cases c) (auto simp: lowerChar_def isUpper_def Let_def of_bool_def split: if_splits)

lemma lowerChar_other: "\<not> isUpper c \<Longrightarrow> lowerChar c = c"
  by (simp add: lowerChar_def)


text \<open>
  Each block of the prompt depends only on the cells it reads.
\<close>

lemma charDesc_frame:
  "a2_age (animal2Details s) = a2_age (animal2Details t) \<Longrightarrow> charDesc s c = charDesc t c"
  by (simp add: charDesc_def Let_def split: details.splits)

lemma mainCharacters_frame:
  "savedCharacters s = savedCharacters t \<Longrightarrow> characterActions s = characterActions t \<Longrightarrow>
   mainCharacters s = mainCharacters t"
  by (simp add: mainCharacters_def)

lemma characterSentences_frame:
  "savedCharacters s = savedCharacters t \<Longrightarrow> mainCharacters s = mainCharacters t \<Longrightarrow>
   a2_age (animal2Details s) = a2_age (animal2Details t) \<Longrightarrow>
   characterSentences s = characterSentences t"
  by (simp add: characterSentences_def charDesc_frame [of s t])

lemma actionSentences_frame:
  "savedCharacters s = savedCharacters t \<Longrightarrow> expressions s = expressions t \<Longrightarrow>
   actionSentences s ca = actionSentences t ca"
  by (simp add: actionSentences_def split: option.splits)

lemma sceneSentences_frame:
  "location s = location t \<Longrightarrow> timeOfDay s = timeOfDay t \<Longrightarrow> cameraMotion s = cameraMotion t \<Longrightarrow>
   lighting s = lighting t \<Longrightarrow> selectedVisualStyles s = selectedVisualStyles t \<Longrightarrow>
   videoMood s = videoMood t \<Longrightarrow> soundMusic s = soundMusic t \<Longrightarrow>
   sceneSentences s = sceneSentences t"
  by (simp add: sceneSentences_def)

lemma spokenSentences_frame:
  "savedCharacters s = savedCharacters t \<Longrightarrow> spokenSentences s sd = spokenSentences t sd"
  by (simp add: spokenSentences_def split: option.splits)

lemma prompt_frame:
  assumes "sameStore s t" and "a2_age (animal2Details s) = a2_age (animal2Details t)"
  shows "prompt s = prompt t"
proof -
  have 1: "characterSentences s = characterSentences t"
    using assms by (intro characterSentences_frame mainCharacters_frame) (simp_all add: sameStore_def)
  have 2: "actionSentences s = actionSentences t"
    using assms by (intro ext actionSentences_frame) (simp_all add: sameStore_def)
  have 3: "sceneSentences s = sceneSentences t"
    using assms by (intro sceneSentences_frame) (simp_all add: sameStore_def)
  have 4: "spokenSentences s = spokenSentences t"
    using assms by (intro ext spokenSentences_frame) (simp_all add: sameStore_def)
  show ?thesis
    using assms unfolding prompt_def 1 2 3 4 by (simp add: sameStore_def)
qed




text \<open>
  With non-empty names, the source's list of main characters is the specification's.
\<close>

lemma join_Cons: "join sep (x # xs) = x @ (if xs = [] then [] else sep @ join sep xs)"
  by (cases xs) simp_all

lemma findCharacter_mem: "findCharacter cs i = Some c \<Longrightarrow> c \<in> set cs"
  by (auto simp: findCharacter_def find_Some_iff)

lemma filterBoolean_names:
  assumes "\<forall>c \<in> set cs. cname c \<noteq> []"
  shows "filterBoolean (map (\<lambda>ca. map_option cname (findCharacter cs (charId ca))) as)
       = concat (map (\<lambda>ca. case findCharacter cs (charId ca) of None \<Rightarrow> [] | Some c \<Rightarrow> [cname c]) as)"
proof (induction as)
  case Nil
  show ?case by simp
next
  case (Cons a as)
  show ?case
  proof (cases "findCharacter cs (charId a)")
    case None
    with Cons show ?thesis by simp
  next
    case (Some c)
    then have "cname c \<noteq> []" using assms findCharacter_mem by blast
    with Some Cons show ?thesis by simp
  qed
qed

lemma mainCharacters_spec:
  "\<forall>c \<in> set (savedCharacters s). cname c \<noteq> [] \<Longrightarrow> mainCharacters s = mainNames_spec s"
  by (simp add: mainCharacters_def mainNames_spec_def filterBoolean_names)

lemma mainNames_saved: "mainNames_spec s \<noteq> [] \<Longrightarrow> savedCharacters s \<noteq> []"
  by (auto simp: mainNames_spec_def findCharacter_def split: option.splits)

text \<open>
  The human branch of \<open>charDesc\<close> is the sentence of the specification.
\<close>

lemma appendIf_render:
  "appendIf v (\<lambda>x. pre @ toLowerCase x) acc = acc @ clause_spec (pre, v)"
  by (simp add: appendIf_def clause_spec_def truthy_def split: option.splits)

lemma lowerOrEmpty_render: "lowerOrEmpty v = clause_spec ([], v)"
  by (simp add: lowerOrEmpty_def clause_spec_def truthy_def split: option.splits)

lemma charDesc_human:
  assumes "cdetails c = Human h"
  shows "charDesc s c @ ''.'' = humanSentence_spec (cname c) h"
proof -
  have t: "typeOf c = ''human''"
    using assms by (simp add: typeOf_def)
  have "charDesc s c = (((((((cname c @ '' adalah '' @ ''seorang'' @ '' '') @ ''manusia '' @ clause_spec ([], h_gender h))
      @ clause_spec ('' berusia '', h_age h)) @ clause_spec ('' dengan kulit '', h_skinColor h))
      @ clause_spec ('' berbadan '', h_bodyTypePosture h)) @ clause_spec ('' mengenakan '', h_clothingAccessories h))
      @ clause_spec ('', '', h_additionalDetail h))"
    by (simp only: charDesc_def Let_def assms t simp_thms if_True details.case appendIf_render lowerOrEmpty_render)
  then show ?thesis
    by (simp add: humanSentence_spec_def humanClauses_spec_def)
qed

lemma compose_single:
  "compose (initialApp\<lparr>savedCharacters := [c]\<rparr>) = charDesc (initialApp\<lparr>savedCharacters := [c]\<rparr>) c @ ''.''"
  by (simp add: compose_def prompt_def characterSentences_def mainCharacters_def sceneSentences_def initialApp_def)

text \<open>
  An audience line and an answer line of one action are rendered alike.
\<close>

lemma lineSentences_audience:
  "dl_type l = ''Berbicara ke Audiens'' \<Longrightarrow>
   lineSentences c (l\<lparr>dl_type := ''Give an answer''\<rparr>) = lineSentences c l"
  by (simp add: lineSentences_def)

lemma prompt_audience:
  assumes "dl_type l = ''Berbicara ke Audiens''"
  shows "prompt (s\<lparr>characterActions := xs @ ca\<lparr>dialogueLines := ls @ l # rs\<rparr> # ys\<rparr>)
       = prompt (s\<lparr>characterActions := xs @ ca\<lparr>dialogueLines := ls @ l\<lparr>dl_type := ''Give an answer''\<rparr> # rs\<rparr> # ys\<rparr>)"
proof -
  let ?c1 = "ca\<lparr>dialogueLines := ls @ l # rs\<rparr>"
  let ?c2 = "ca\<lparr>dialogueLines := ls @ l\<lparr>dl_type := ''Give an answer''\<rparr> # rs\<rparr>"
  let ?s1 = "s\<lparr>characterActions := xs @ ?c1 # ys\<rparr>" and ?s2 = "s\<lparr>characterActions := xs @ ?c2 # ys\<rparr>"
  have 0: "mainCharacters ?s1 = mainCharacters ?s2"
    by (simp add: mainCharacters_def)
  have 1: "characterSentences ?s1 = characterSentences ?s2"
    by (intro characterSentences_frame 0) simp_all
  have 2: "actionSentences ?s1 = actionSentences s" "actionSentences ?s2 = actionSentences s"
    by (intro ext actionSentences_frame; simp)+
  have 3: "sceneSentences ?s1 = sceneSentences ?s2"
    by (intro sceneSentences_frame) simp_all
  have 4: "spokenSentences ?s1 = spokenSentences s" "spokenSentences ?s2 = spokenSentences s"
    by (intro ext spokenSentences_frame; simp)+
  have 5: "actionSentences s ?c1 = actionSentences s ?c2"
    using assms by (simp add: actionSentences_def lineSentences_audience split: option.splits)
  show ?thesis
    unfolding prompt_def 1 2 3 4 by (simp add: 5)
qed

text \<open>
  After \<open>handleCharacterActionChange\<close> the character's entry carries the new action.
\<close>

lemma find_after_change:
  assumes "\<And>x. P x \<Longrightarrow> P (f x)" and "P d"
  shows "find P (case findIndex P xs of Some k \<Rightarrow> xs[k := f (xs ! k)] | None \<Rightarrow> xs @ [d])
       = Some (case find P xs of Some x \<Rightarrow> f x | None \<Rightarrow> d)"
  using assms by (induction xs) (auto split: option.splits)

lemma action_written:
  "\<exists>ca. find (\<lambda>a. charId a = i) (characterActions (handleCharacterActionChange i v s)) = Some ca
        \<and> action ca = v"
proof -
  let ?P = "\<lambda>a. charId a = i" and ?f = "\<lambda>a. a\<lparr>action := v\<rparr>"
  let ?d = "\<lparr>charId = i, action = v, isMain = False, dialogueLines = []\<rparr>"
  have "find ?P (characterActions (handleCharacterActionChange i v s))
      = Some (case find ?P (characterActions s) of Some x \<Rightarrow> ?f x | None \<Rightarrow> ?d)"
    unfolding handleCharacterActionChange_def Let_def
    using find_after_change [of ?P ?f ?d "characterActions s"] by simp
  then show ?thesis
    by (auto split: option.splits)
qed

text \<open>
  The two ways a settled request ends.
\<close>

lemma settled_failure:
  assumes "suggestedText outcome = None"
  shows "suggestCharacterAction_settled c i outcome s
       = s\<lparr>isLoadingActionSuggestion := (isLoadingActionSuggestion s)(i \<mapsto> False),
           modalMessage := modalMessage (suggestCharacterAction_settled c i outcome s),
           showModal := True\<rparr>"
  using assms
  by (cases outcome)
     (simp_all add: suggestCharacterAction_settled_def suggestedText_def setLoadingAction_def
        showCustomModal_def split: option.splits)

lemma settled_success:
  assumes "suggestedText outcome = Some t"
  shows "suggestCharacterAction_settled c i outcome s
       = setLoadingAction i False
           (showCustomModal (''Aksi untuk '' @ cname c @ '' disarankan: '' @ dquote @ trim t @ dquote)
              (handleCharacterActionChange i (trim t) s))"
  using assms
  by (cases outcome)
     (auto simp: suggestCharacterAction_settled_def suggestedText_def Let_def split: option.splits)




lemma safeIds_initial: "safeIds initialApp"
  by (simp add: safeIds_def initialApp_def)







text \<open>Whenever the source returns, it returns the composed text.\<close>

lemma actionSentencesJS_returns:
  "actionSentencesJS s ca = Inr ys \<Longrightarrow> ys = actionSentences s ca"
  by (auto simp: actionSentencesJS_def actionSentences_def getProperty_def appendIf_def Let_def
      split: option.splits js_value.splits if_splits)

lemma forEachJS_returns:
  "(\<And>x ys. f x = Inr ys \<Longrightarrow> ys = g x) \<Longrightarrow> forEachJS f xs = Inr zs \<Longrightarrow> zs = concat (map g xs)"
  by (induction xs arbitrary: zs) (auto split: sum.splits)

lemma composeJS_returns: "composeJS s = Inr x \<Longrightarrow> x = compose s"
proof -
  assume r: "composeJS s = Inr x"
  then obtain actions where a: "forEachJS (actionSentencesJS s) (characterActions s) = Inr actions"
    by (auto simp: composeJS_def promptJS_def split: sum.splits)
  have "actions = concat (map (actionSentences s) (characterActions s))"
    using actionSentencesJS_returns a by (rule forEachJS_returns)
  with r a show ?thesis
    by (simp add: composeJS_def promptJS_def compose_def prompt_def)
qed





text \<open>A dialogue line of an entry whose character is saved is a sentence of the prompt.\<close>

lemma line_in_prompt:
  assumes "findCharacter (savedCharacters s) (charId ca) = Some c"
    and "ca \<in> set (characterActions s)" and "l \<in> set (dialogueLines ca)"
    and "x \<in> set (lineSentences c l)"
  shows "x \<in> set (prompt s)"
proof -
  have "x \<in> set (actionSentences s ca)"
    using assms by (auto simp: actionSentences_def Let_def)
  with assms(2) have "x \<in> set (concat (map (actionSentences s) (characterActions s)))"
    by auto
  then show ?thesis
    by (simp add: prompt_def)
qed

section \<open>The claims\<close>

text \<open>
  Claim C1. A two-legged animal saved with an age of the age table should be introduced
  with that descriptor in parentheses. The form is filled with the name Bruno, the
  type \<open>animal2\<close>, the animal type Bear and the toddler descriptor, and saved: the saved
  character holds the descriptor, the descriptor is in the table, yet the composed text
  has no parenthesis, because the composer looks the age up in the form state, which
  saving has cleared. With another age left in the form, that age is printed for Bruno.
\<close>

theorem C1_saved_age_not_emitted:
  "map cdetails (savedCharacters (handleSaveCharacter 1720000000000 brunoForm))
     = [Animal2 (emptyAnimal2\<lparr>a2_animalType := Some ''Bear'', a2_age := Some toddler\<rparr>)]
   \<and> toddler \<in> set animalAge
   \<and> compose (handleSaveCharacter 1720000000000 brunoForm)
     = ''Bruno adalah seekor hewan bear berjalan dengan dua kaki.''
   \<and> compose ((handleSaveCharacter 1720000000000 brunoForm)
         \<lparr>animal2Details := emptyAnimal2\<lparr>a2_age := Some ''elderly, gray fur, wrinkles, gentle demeanor''\<rparr>\<rparr>)
     = ''Bruno adalah seekor hewan bear berjalan dengan dua kaki (elderly, gray fur, wrinkles, gentle demeanor).''"
  by (simp add: handleSaveCharacter_def showCustomModal_def compose_defs example_defs)

text \<open>
  Claim C2, as stated, fails: the source has no removal of a saved character; the one
  handler that drops a character's entry from \<open>characterActions\<close> is the unticking of
  its check box, and it leaves the expression mapping alone. In the example store, Bruno
  keeps the expression Happy after being deselected.
\<close>

theorem C2_expression_kept_counterexample:
  "expressions (onSelectCharacterChange False ''2'' sceneStore) ''2'' = Some ''Happy''"
  by (simp add: onSelectCharacterChange_def example_defs)

text \<open>
  Claim C2, amended. Deselecting a character removes its entry from \<open>characterActions\<close>
  and its identifier from the selection; the expression mapping and the saved
  characters are unchanged.
\<close>

theorem C2_deselect_removes_action_keeps_expression:
  "find (\<lambda>a. charId a = i) (characterActions (onSelectCharacterChange False i s)) = None
   \<and> i \<notin> set (selectedCharactersForActions (onSelectCharacterChange False i s))
   \<and> expressions (onSelectCharacterChange False i s) = expressions s
   \<and> savedCharacters (onSelectCharacterChange False i s) = savedCharacters s"
  by (auto simp: onSelectCharacterChange_def find_None_iff)

theorem C2_deselect_witness:
  "map charId (characterActions (onSelectCharacterChange False ''2'' sceneStore)) = [''1'']
   \<and> selectedCharactersForActions (onSelectCharacterChange False ''2'' sceneStore) = [''1'']
   \<and> expressions (onSelectCharacterChange False ''2'' sceneStore) = expressions sceneStore"
  using C2_deselect_removes_action_keeps_expression [of "''2''" sceneStore]
  by (simp add: onSelectCharacterChange_def example_defs)

text \<open>
  Claim C3. For a saved character, a suggestion that succeeds leaves an entry for that
  character in \<open>characterActions\<close> whose action is the trimmed text of the response. A
  suggestion that fails (rejected request, status that is not a success, body that is
  not JSON or lacks the candidates/content/parts shape or the text) leaves
  \<open>characterActions\<close> as it was, and the resulting state is the prior state with that
  character's loading flag set to false and the failure message shown; every other
  cell, and the loading flag of every other character, is unchanged.
\<close>

theorem C3_suggestion_success_and_failure:
  assumes "findCharacter (savedCharacters s) i = Some c"
  shows "(suggestedText outcome = Some t \<longrightarrow>
            (\<exists>ca. find (\<lambda>a. charId a = i) (characterActions (suggestCharacterAction i outcome s)) = Some ca
                 \<and> action ca = trim t))
       \<and> (suggestedText outcome = None \<longrightarrow>
            characterActions (suggestCharacterAction i outcome s) = characterActions s
            \<and> suggestCharacterAction i outcome s
              = s\<lparr>isLoadingActionSuggestion := (isLoadingActionSuggestion s)(i \<mapsto> False),
                  modalMessage := modalMessage (suggestCharacterAction i outcome s),
                  showModal := True\<rparr>)"
proof -
  let ?s1 = "setLoadingAction i True s"
  have run: "suggestCharacterAction i outcome s = suggestCharacterAction_settled c i outcome ?s1"
    using assms by (simp add: suggestCharacterAction_def)
  have ok: "suggestedText outcome = Some t \<longrightarrow>
      (\<exists>ca. find (\<lambda>a. charId a = i) (characterActions (suggestCharacterAction i outcome s)) = Some ca
           \<and> action ca = trim t)"
  proof
    assume "suggestedText outcome = Some t"
    then have "characterActions (suggestCharacterAction i outcome s)
        = characterActions (handleCharacterActionChange i (trim t) ?s1)"
      by (simp add: run settled_success setLoadingAction_def showCustomModal_def)
    then show "\<exists>ca. find (\<lambda>a. charId a = i) (characterActions (suggestCharacterAction i outcome s)) = Some ca
           \<and> action ca = trim t"
      using action_written [of i "trim t" ?s1] by simp
  qed
  have bad: "suggestedText outcome = None \<longrightarrow>
      suggestCharacterAction i outcome s
        = s\<lparr>isLoadingActionSuggestion := (isLoadingActionSuggestion s)(i \<mapsto> False),
            modalMessage := modalMessage (suggestCharacterAction i outcome s),
            showModal := True\<rparr>"
  proof
    assume n: "suggestedText outcome = None"
    show "suggestCharacterAction i outcome s
        = s\<lparr>isLoadingActionSuggestion := (isLoadingActionSuggestion s)(i \<mapsto> False),
            modalMessage := modalMessage (suggestCharacterAction i outcome s),
            showModal := True\<rparr>"
      unfolding run
      by (subst settled_failure [OF n]) (simp add: setLoadingAction_def)
  qed
  have same: "suggestedText outcome = None \<longrightarrow>
      characterActions (suggestCharacterAction i outcome s) = characterActions s"
  proof
    assume n: "suggestedText outcome = None"
    show "characterActions (suggestCharacterAction i outcome s) = characterActions s"
      unfolding run by (subst settled_failure [OF n]) (simp add: setLoadingAction_def)
  qed
  show ?thesis
    using ok bad same by blast
qed

theorem C3_suggestion_witness:
  "findCharacter (savedCharacters sceneStore) ''1'' = Some aria
   \<and> suggestedText goodOutcome = Some ''  melompat tinggi ''
   \<and> map action (characterActions (suggestCharacterAction ''1'' goodOutcome sceneStore)) = [''Lari'', ''melompat tinggi'']
   \<and> suggestedText badOutcome = None
   \<and> map action (characterActions (suggestCharacterAction ''1'' badOutcome sceneStore)) = [''Lari'', ''Duduk'']
   \<and> isLoadingActionSuggestion (suggestCharacterAction ''1'' badOutcome sceneStore) ''1'' = Some False"
proof -
  have h: "findCharacter (savedCharacters sceneStore) ''1'' = Some aria"
    by (simp add: findCharacter_def example_defs)
  have g: "suggestedText goodOutcome = Some ''  melompat tinggi ''"
    by (simp add: suggestedText_def firstPart_def goodOutcome_def)
  have b: "suggestedText badOutcome = None"
    by (simp add: suggestedText_def badOutcome_def)
  have t: "trim ''  melompat tinggi '' = ''melompat tinggi''"
    by (simp add: trim_def isWhiteSpace_def)
  have e: "map action (characterActions (suggestCharacterAction ''1'' goodOutcome sceneStore)) = [''Lari'', ''melompat tinggi'']"
    by (simp add: suggestCharacterAction_def suggestCharacterAction_settled_def setLoadingAction_def
         showCustomModal_def handleCharacterActionChange_def firstPart_def findCharacter_def t example_defs)
  have f: "suggestCharacterAction ''1'' badOutcome sceneStore
       = sceneStore\<lparr>isLoadingActionSuggestion := (isLoadingActionSuggestion sceneStore)(''1'' \<mapsto> False),
            modalMessage := modalMessage (suggestCharacterAction ''1'' badOutcome sceneStore),
            showModal := True\<rparr>"
    using C3_suggestion_success_and_failure [OF h, of badOutcome] b by simp
  have "map action (characterActions (suggestCharacterAction ''1'' badOutcome sceneStore)) = [''Lari'', ''Duduk'']"
    by (subst f) (simp add: example_defs)
  moreover have "isLoadingActionSuggestion (suggestCharacterAction ''1'' badOutcome sceneStore) ''1'' = Some False"
    by (subst f) simp
  ultimately show ?thesis
    using h g b e by simp
qed

text \<open>
  Claim C4. A dialogue line of a character action with a non-empty sentence and the type
  \<open>Berbicara ke Audiens\<close> yields the line speaker name, \<open>menjawab\<close>, quoted sentence: the
  same line as with the type \<open>Give an answer\<close>. When the entry's character is saved, this
  line is a sentence of the prompt, and the composed text is the same whichever of the
  two types the line has.
\<close>

theorem C4_audience_line_as_answer:
  assumes "dl_sentence l \<noteq> []" and "dl_type l = ''Berbicara ke Audiens''"
  shows "lineSentences c l = [cname c @ '' menjawab: '' @ dquote @ dl_sentence l @ dquote]
       \<and> lineSentences c l = lineSentences c (l\<lparr>dl_type := ''Give an answer''\<rparr>)
       \<and> compose (s\<lparr>characterActions := xs @ ca\<lparr>dialogueLines := ls @ l # rs\<rparr> # ys\<rparr>)
         = compose (s\<lparr>characterActions := xs @ ca\<lparr>dialogueLines := ls @ l\<lparr>dl_type := ''Give an answer''\<rparr> # rs\<rparr> # ys\<rparr>)
       \<and> (findCharacter (savedCharacters s) (charId ca) = Some c \<longrightarrow>
            cname c @ '' menjawab: '' @ dquote @ dl_sentence l @ dquote
              \<in> set (prompt (s\<lparr>characterActions := xs @ ca\<lparr>dialogueLines := ls @ l # rs\<rparr> # ys\<rparr>)))"
proof -
  let ?ca = "ca\<lparr>dialogueLines := ls @ l # rs\<rparr>"
  let ?s = "s\<lparr>characterActions := xs @ ?ca # ys\<rparr>"
  have line: "lineSentences c l = [cname c @ '' menjawab: '' @ dquote @ dl_sentence l @ dquote]"
    using assms by (simp add: lineSentences_def)
  have emitted: "findCharacter (savedCharacters s) (charId ca) = Some c \<longrightarrow>
      cname c @ '' menjawab: '' @ dquote @ dl_sentence l @ dquote \<in> set (prompt ?s)"
  proof
    assume "findCharacter (savedCharacters s) (charId ca) = Some c"
    then have "findCharacter (savedCharacters ?s) (charId ?ca) = Some c"
      by simp
    then show "cname c @ '' menjawab: '' @ dquote @ dl_sentence l @ dquote \<in> set (prompt ?s)"
      by (rule line_in_prompt [where l = l]) (simp_all add: line)
  qed
  show ?thesis
    using assms emitted by (simp add: compose_def prompt_audience lineSentences_def)
qed

theorem C4_audience_line_witness:
  "dl_sentence audienceLine \<noteq> [] \<and> dl_type audienceLine = ''Berbicara ke Audiens''
   \<and> findCharacter (savedCharacters sceneStore) (charId (strayAction\<lparr>charId := ''1''\<rparr>)) = Some aria
   \<and> lineSentences aria audienceLine = [''Aria menjawab: '' @ dquote @ ''Halo semua'' @ dquote]
   \<and> lineSentences aria (audienceLine\<lparr>dl_type := ''Give an answer''\<rparr>)
       = [''Aria menjawab: '' @ dquote @ ''Halo semua'' @ dquote]
   \<and> ''Aria menjawab: '' @ dquote @ ''Halo semua'' @ dquote
       \<in> set (prompt (sceneStore\<lparr>characterActions := [strayAction\<lparr>charId := ''1'', dialogueLines := [audienceLine]\<rparr>]\<rparr>))
   \<and> compose (sceneStore\<lparr>characterActions := [strayAction\<lparr>charId := ''1'', dialogueLines := [audienceLine]\<rparr>]\<rparr>)
       = ''Karakter utama adalah Aria. Aria adalah seorang manusia female berusia 25 tahun. ''
         @ ''Bruno adalah seekor hewan bear berjalan dengan dua kaki. Aria sedang terbang. ''
         @ ''Aria menjawab: '' @ dquote @ ''Halo semua'' @ dquote
         @ '' Gaya visual video adalah 3d, anime.''
   \<and> compose (sceneStore\<lparr>characterActions :=
            [strayAction\<lparr>charId := ''1'', dialogueLines := [audienceLine\<lparr>dl_type := ''Give an answer''\<rparr>]\<rparr>]\<rparr>)
       = compose (sceneStore\<lparr>characterActions := [strayAction\<lparr>charId := ''1'', dialogueLines := [audienceLine]\<rparr>]\<rparr>)"
proof -
  have h1: "dl_sentence audienceLine \<noteq> []" and h2: "dl_type audienceLine = ''Berbicara ke Audiens''"
    by (simp_all add: audienceLine_def)
  have h3: "findCharacter (savedCharacters sceneStore) (charId (strayAction\<lparr>charId := ''1''\<rparr>)) = Some aria"
    by (simp add: findCharacter_def example_defs)
  have v: "compose (sceneStore\<lparr>characterActions := [strayAction\<lparr>charId := ''1'', dialogueLines := [audienceLine]\<rparr>]\<rparr>)
       = ''Karakter utama adalah Aria. Aria adalah seorang manusia female berusia 25 tahun. ''
         @ ''Bruno adalah seekor hewan bear berjalan dengan dua kaki. Aria sedang terbang. ''
         @ ''Aria menjawab: '' @ dquote @ ''Halo semua'' @ dquote
         @ '' Gaya visual video adalah 3d, anime.''"
    by (simp add: compose_defs example_defs)
  note inst = C4_audience_line_as_answer [OF h1 h2, where c = aria and s = sceneStore and xs = "[]"
        and ca = "strayAction\<lparr>charId := ''1''\<rparr>" and ls = "[]" and rs = "[]" and ys = "[]"]
  have m: "''Aria menjawab: '' @ dquote @ ''Halo semua'' @ dquote
       \<in> set (prompt (sceneStore\<lparr>characterActions := [strayAction\<lparr>charId := ''1'', dialogueLines := [audienceLine]\<rparr>]\<rparr>))"
    using inst h3 by (simp add: audienceLine_def aria_def)
  have e: "compose (sceneStore\<lparr>characterActions :=
            [strayAction\<lparr>charId := ''1'', dialogueLines := [audienceLine\<lparr>dl_type := ''Give an answer''\<rparr>]\<rparr>]\<rparr>)
       = compose (sceneStore\<lparr>characterActions := [strayAction\<lparr>charId := ''1'', dialogueLines := [audienceLine]\<rparr>]\<rparr>)"
    using inst by simp
  have l: "lineSentences aria audienceLine = [''Aria menjawab: '' @ dquote @ ''Halo semua'' @ dquote]"
    using inst by (simp add: audienceLine_def aria_def)
  have l': "lineSentences aria (audienceLine\<lparr>dl_type := ''Give an answer''\<rparr>)
       = [''Aria menjawab: '' @ dquote @ ''Halo semua'' @ dquote]"
    using inst l by simp
  show ?thesis
    using h1 h2 h3 l l' m v e by simp
qed




text \<open>
  Claim C6. In a store whose saved characters have non-empty names (saving requires a
  name): when some entry with \<open>isMain\<close> resolves to a saved character, the prompt is not
  empty, its first sentence is \<open>Karakter utama adalah\<close> followed by exactly the resolved
  names joined with \<open>dan\<close> and a full stop, and the composed text starts with that
  sentence; when no such entry resolves, the first block consists of the character
  descriptions alone, with no callout sentence.
\<close>

theorem C6_main_character_callout:
  assumes "\<forall>c \<in> set (savedCharacters s). cname c \<noteq> []"
  shows "(mainNames_spec s \<noteq> [] \<longrightarrow>
            prompt s \<noteq> [] \<and>
            hd (prompt s) = ''Karakter utama adalah '' @ join '' dan '' (mainNames_spec s) @ ''.'' \<and>
            (\<exists>rest. compose s = ''Karakter utama adalah '' @ join '' dan '' (mainNames_spec s) @ ''.'' @ rest))
       \<and> (mainNames_spec s = [] \<longrightarrow>
            characterSentences s = map (\<lambda>c. charDesc s c @ ''.'') (savedCharacters s))"
proof -
  have m: "mainCharacters s = mainNames_spec s"
    using assms by (rule mainCharacters_spec)
  have empty: "mainNames_spec s = [] \<longrightarrow>
      characterSentences s = map (\<lambda>c. charDesc s c @ ''.'') (savedCharacters s)"
    by (simp add: characterSentences_def m)
  have first: "mainNames_spec s \<noteq> [] \<longrightarrow>
      (\<exists>tl. prompt s = (''Karakter utama adalah '' @ join '' dan '' (mainNames_spec s) @ ''.'') # tl)"
    using mainNames_saved [of s] by (simp add: prompt_def characterSentences_def m)
  show ?thesis
    using empty first unfolding compose_def by (auto simp: join_Cons)
qed

theorem C6_main_character_witness:
  "map cname (savedCharacters sceneStore) = [''Aria'', ''Bruno'']
   \<and> mainNames_spec sceneStore = [''Bruno'']
   \<and> hd (prompt sceneStore) = ''Karakter utama adalah Bruno.''"
proof -
  have n: "map cname (savedCharacters sceneStore) = [''Aria'', ''Bruno'']"
    by (simp add: example_defs)
  have h: "\<forall>c \<in> set (savedCharacters sceneStore). cname c \<noteq> []"
    by (simp add: example_defs)
  have r: "mainNames_spec sceneStore = [''Bruno'']"
    by (simp add: mainNames_spec_def findCharacter_def example_defs)
  show ?thesis
    using C6_main_character_callout [OF h] n r by simp
qed

text \<open>
  Claim C7. For a human character the description sentence is the name, \<open>adalah seorang
  manusia\<close>, then the clauses gender, age, skin colour, body type or posture, clothing and
  additional detail in this order, each only if its field is present and lower-cased,
  then a full stop. Every saved human character has this sentence in the prompt, and a
  store holding one human character and nothing else composes to exactly this sentence.
\<close>

theorem C7_human_introduction:
  assumes "cdetails c = Human h"
  shows "charDesc s c @ ''.'' = humanSentence_spec (cname c) h
       \<and> (c \<in> set (savedCharacters s) \<longrightarrow> humanSentence_spec (cname c) h \<in> set (prompt s))
       \<and> compose (initialApp\<lparr>savedCharacters := [c]\<rparr>) = humanSentence_spec (cname c) h"
proof -
  have 1: "charDesc s c @ ''.'' = humanSentence_spec (cname c) h" for s
    using assms by (rule charDesc_human)
  have 2: "c \<in> set (savedCharacters s) \<longrightarrow> charDesc s c @ ''.'' \<in> set (prompt s)"
    by (auto simp: prompt_def characterSentences_def)
  show ?thesis
    using 2 by (simp add: 1 compose_single)
qed

text \<open>
  Scenario A: Aria, gender Female, age 25 tahun, no other field.
\<close>

theorem C7_scenario_A_witness:
  "cdetails aria = Human (emptyHuman\<lparr>h_gender := Some ''Female'', h_age := Some ''25 tahun''\<rparr>)
   \<and> compose (initialApp\<lparr>savedCharacters := [aria]\<rparr>) = ''Aria adalah seorang manusia female berusia 25 tahun.''"
proof -
  have h: "cdetails aria = Human (emptyHuman\<lparr>h_gender := Some ''Female'', h_age := Some ''25 tahun''\<rparr>)"
    by (simp add: aria_def)
  have v: "humanSentence_spec (cname aria) (emptyHuman\<lparr>h_gender := Some ''Female'', h_age := Some ''25 tahun''\<rparr>)
      = ''Aria adalah seorang manusia female berusia 25 tahun.''"
    by (simp add: humanSentence_spec_def humanClauses_spec_def clause_spec_def truthy_def toLowerCase_def
         lowerChar_def isUpper_def aria_def emptyHuman_def)
  show ?thesis
    using C7_human_introduction [OF h, of initialApp] h v by simp
qed

text \<open>
  Claim C8. \<open>handleVisualStyleChange\<close> turns the set of selected styles into its symmetric
  difference with the singleton of the style: the style is a member afterwards exactly
  when it was not before, and toggling the same style twice restores the membership.
\<close>

theorem C8_toggle_visual_style: 
  "set (selectedVisualStyles (handleVisualStyleChange style s)) =
      (set (selectedVisualStyles s) - {style}) \<union> ({style} - set (selectedVisualStyles s))
   \<and> (style \<in> set (selectedVisualStyles (handleVisualStyleChange style s)) \<longleftrightarrow> style \<notin> set (selectedVisualStyles s))
   \<and> set (selectedVisualStyles (handleVisualStyleChange style (handleVisualStyleChange style s))) = set (selectedVisualStyles s)"
  by (auto simp: handleVisualStyleChange_def Let_def)

theorem C8_toggle_witness:
  "selectedVisualStyles (handleVisualStyleChange ''Anime'' sceneStore) = [''3D'']
   \<and> set (selectedVisualStyles (handleVisualStyleChange ''Anime'' (handleVisualStyleChange ''Anime'' sceneStore)))
     = {''3D'', ''Anime''}"
  using C8_toggle_visual_style [of "''Anime''" sceneStore]
  by (simp add: handleVisualStyleChange_def example_defs)

text \<open>
  Claim C9. Composing should give one text for one Entity Store. Bruno is saved with the
  toddler age; then an age is chosen in the form for a next character, which is not
  saved. The two states hold the same Entity Store, yet composing gives two texts: the
  composer reads the age of the two-legged animal from the form, which is outside the
  store, instead of from the saved character.
\<close>

theorem C9_same_store_two_texts:
  "sameStore brunoSaved brunoSavedFormAge
   \<and> composeJS brunoSaved = Inr ''Bruno adalah seekor hewan bear berjalan dengan dua kaki.''
   \<and> composeJS brunoSavedFormAge
       = Inr ''Bruno adalah seekor hewan bear berjalan dengan dua kaki (elderly, gray fur, wrinkles, gentle demeanor).''"
proof -
  have 1: "sameStore brunoSaved brunoSavedFormAge"
    by (simp add: sameStore_def brunoSavedFormAge_def)
  have 2: "composeJS brunoSaved = Inr ''Bruno adalah seekor hewan bear berjalan dengan dua kaki.''"
    by (simp add: composeJS_def promptJS_def handleSaveCharacter_def showCustomModal_def
        compose_defs example_defs)
  have 3: "composeJS brunoSavedFormAge
       = Inr ''Bruno adalah seekor hewan bear berjalan dengan dua kaki (elderly, gray fur, wrinkles, gentle demeanor).''"
    by (simp add: composeJS_def promptJS_def handleSaveCharacter_def showCustomModal_def
        compose_defs example_defs)
  show ?thesis
    using 1 2 3 by simp
qed

text \<open>
  Claim C10. An entry of the global spoken dialogue whose speaker is saved, whose
  sentence is not empty and whose type is none of \<open>Ask a question\<close>, \<open>Give an answer\<close>
  and \<open>Berbicara ke Audiens\<close> yields the single fragment made of the speaker's name and
  a space, and this fragment is in the prompt of every state holding the entry.
\<close>

theorem C10_untyped_spoken_fragment:
  assumes "findCharacter (savedCharacters s) (sd_charId sd) = Some speaker"
    and "sd_sentence sd \<noteq> []"
    and "sd_type sd \<noteq> ''Ask a question''" and "sd_type sd \<noteq> ''Give an answer''"
    and "sd_type sd \<noteq> ''Berbicara ke Audiens''"
  shows "spokenSentences s sd = [cname speaker @ '' '']
       \<and> (sd \<in> set (spokenDialogue s) \<longrightarrow> cname speaker @ '' '' \<in> set (prompt s))"
proof -
  have 1: "spokenSentences s sd = [cname speaker @ '' '']"
    using assms by (simp add: spokenSentences_def dialogueText_def)
  have "sd \<in> set (spokenDialogue s) \<longrightarrow> cname speaker @ '' '' \<in> set (prompt s)"
  proof
    assume "sd \<in> set (spokenDialogue s)"
    then have "cname speaker @ '' '' \<in> set (concat (map (spokenSentences s) (spokenDialogue s)))"
      using 1 by force
    then show "cname speaker @ '' '' \<in> set (prompt s)"
      by (simp add: prompt_def)
  qed
  with 1 show ?thesis by simp
qed

theorem C10_untyped_spoken_witness:
  "findCharacter (savedCharacters (sceneStore\<lparr>spokenDialogue := [untypedEntry]\<rparr>)) (sd_charId untypedEntry) = Some aria
   \<and> sd_sentence untypedEntry \<noteq> [] \<and> sd_type untypedEntry = []
   \<and> spokenSentences (sceneStore\<lparr>spokenDialogue := [untypedEntry]\<rparr>) untypedEntry = [''Aria '']
   \<and> ''Aria '' \<in> set (prompt (sceneStore\<lparr>spokenDialogue := [untypedEntry]\<rparr>))
   \<and> compose (initialApp\<lparr>savedCharacters := [aria], spokenDialogue := [untypedEntry]\<rparr>)
       = ''Aria adalah seorang manusia female berusia 25 tahun. Aria ''"
proof -
  let ?s = "sceneStore\<lparr>spokenDialogue := [untypedEntry]\<rparr>"
  have h1: "findCharacter (savedCharacters ?s) (sd_charId untypedEntry) = Some aria"
    by (simp add: findCharacter_def example_defs)
  have h2: "sd_sentence untypedEntry \<noteq> []"
    and h3: "sd_type untypedEntry \<noteq> ''Ask a question''"
    and h4: "sd_type untypedEntry \<noteq> ''Give an answer''"
    and h5: "sd_type untypedEntry \<noteq> ''Berbicara ke Audiens''"
    and h6: "sd_type untypedEntry = []"
    by (simp_all add: untypedEntry_def)
  have v: "compose (initialApp\<lparr>savedCharacters := [aria], spokenDialogue := [untypedEntry]\<rparr>)
       = ''Aria adalah seorang manusia female berusia 25 tahun. Aria ''"
    by (simp add: compose_defs example_defs)
  show ?thesis
    using C10_untyped_spoken_fragment [OF h1 h2 h3 h4 h5] h1 h2 h6 v by (simp add: aria_def)
qed

end
